theory Spec2Isabelle
  imports Main
begin

section \<open>Strings\<close>

text \<open>
  A JavaScript string is modelled as a \<^typ>\<open>string\<close>: the list of its code units, here
  restricted to the code units below 256. \<open>length\<close> is the \<open>.length\<close> of the source.
\<close>

text \<open>The regular-expression class \<open>\d\<close>: the ten ASCII digits.\<close>

definition isDigit :: "char \<Rightarrow> bool" where
  "isDigit c = (c \<in> set ''0123456789'')"

text \<open>\<open>s.startsWith(p)\<close>.\<close>

definition startsWith :: "string \<Rightarrow> string \<Rightarrow> bool" where
  "startsWith s p = (take (length p) s = p)"

section \<open>The phone normalizer (utils/validation: cleanPhoneInput)\<close>

text \<open>\<open>input.replace(/[^\d+]/g, '')\<close>: every character that is neither a digit nor
  \<open>+\<close> is removed, wherever it stands.\<close>

definition keepDigitsAndPlus :: "string \<Rightarrow> string" where
  "keepDigitsAndPlus input = filter (\<lambda>c. isDigit c \<or> c = CHR ''+'') input"

text \<open>\<open>cleaned.replace(/^\+?/, '')\<close>: one \<open>+\<close> at the very start is removed, if there is one.\<close>

definition dropLeadingPlus :: "string \<Rightarrow> string" where
  "dropLeadingPlus s = (case s of [] \<Rightarrow> [] | c # cs \<Rightarrow> if c = CHR ''+'' then cs else s)"

definition cleanPhoneInput :: "string \<Rightarrow> string" where
  "cleanPhoneInput input =
     (let cleaned = keepDigitsAndPlus input in
      if \<not> startsWith cleaned ''+1'' then
        if startsWith cleaned ''1'' then ''+'' @ cleaned
        else ''+1'' @ dropLeadingPlus cleaned
      else take 12 cleaned)"

section \<open>The schema validator (utils/validation: onboardingFormSchema)\<close>

text \<open>
  The schema is built from the string checks of the zod library. A string schema holds its
  checks in the order in which the methods were chained, and parsing runs them in that
  order on the current data: \<open>min\<close>, \<open>max\<close>, \<open>length\<close> and \<open>regex\<close> record an issue when
  the data fails them and go on; \<open>trim\<close> replaces the data by its trimmed form for the
  checks that follow and for the output.
\<close>

datatype zcheck =
    Min nat string
  | Max nat string
  | Length nat string
  | Regex "string \<Rightarrow> bool" string
  | Trim

text \<open>The white space that \<open>String.prototype.trim\<close> removes, among the code units below 256:
  tab, line feed, vertical tab, form feed, carriage return, space and no-break space.\<close>

definition isWhiteSpace :: "char \<Rightarrow> bool" where
  "isWhiteSpace c =
     (c \<in> set [CHR 0x09, CHR 0x0A, CHR 0x0B, CHR 0x0C, CHR 0x0D, CHR 0x20, CHR 0xA0])"

definition trim :: "string \<Rightarrow> string" where
  "trim s = rev (dropWhile isWhiteSpace (rev (dropWhile isWhiteSpace s)))"

text \<open>The checks of one string schema, run in order: the data as it stands after the
  checks, and the messages of the issues in the order they were raised.\<close>

fun runChecks :: "zcheck list \<Rightarrow> string \<Rightarrow> string list \<Rightarrow> string \<times> string list" where
  "runChecks [] data issues = (data, issues)"
| "runChecks (Min n m # cs) data issues =
     runChecks cs data (if length data < n then issues @ [m] else issues)"
| "runChecks (Max n m # cs) data issues =
     runChecks cs data (if length data > n then issues @ [m] else issues)"
| "runChecks (Length n m # cs) data issues =
     runChecks cs data (if length data \<noteq> n then issues @ [m] else issues)"
| "runChecks (Regex p m # cs) data issues =
     runChecks cs data (if \<not> p data then issues @ [m] else issues)"
| "runChecks (Trim # cs) data issues = runChecks cs (trim data) issues"

text \<open>\<open>safeParse\<close>: the issues (\<open>Inl\<close>) when there is one, else the parsed value.\<close>

definition safeParse :: "zcheck list \<Rightarrow> string \<Rightarrow> string list + string" where
  "safeParse checks v =
     (case runChecks checks v [] of
        (out, []) \<Rightarrow> Inr out
      | (out, m # ms) \<Rightarrow> Inl (m # ms))"

text \<open>\<open>/^\+1[2-9]\d{2}[2-9]\d{2}\d{4}$/\<close> and \<open>/^\d{9}$/\<close>, as predicates on the whole string.\<close>

definition isDigit2to9 :: "char \<Rightarrow> bool" where
  "isDigit2to9 c = (c \<in> set ''23456789'')"

definition canadianPhoneRegex :: "string \<Rightarrow> bool" where
  "canadianPhoneRegex s =
     (length s = 12 \<and> take 2 s = ''+1'' \<and> isDigit2to9 (s ! 2) \<and>
      list_all isDigit (take 2 (drop 3 s)) \<and> isDigit2to9 (s ! 5) \<and>
      list_all isDigit (drop 6 s))"

definition nineDigitsRegex :: "string \<Rightarrow> bool" where
  "nineDigitsRegex s = (length s = 9 \<and> list_all isDigit s)"

definition firstNameSchema :: "zcheck list" where
  "firstNameSchema =
     [Min 1 ''First name is required'',
      Max 50 ''First name must be 50 characters or less'',
      Trim]"

definition lastNameSchema :: "zcheck list" where
  "lastNameSchema =
     [Min 1 ''Last name is required'',
      Max 50 ''Last name must be 50 characters or less'',
      Trim]"

definition phoneSchema :: "zcheck list" where
  "phoneSchema =
     [Min 1 ''Phone number is required'',
      Regex canadianPhoneRegex
        ''Phone number must be a valid Canadian number starting with +1 followed by 10 digits'',
      Trim]"

definition corporationNumberSchema :: "zcheck list" where
  "corporationNumberSchema =
     [Min 1 ''Corporation number is required'',
      Length 9 ''Corporation number must be exactly 9 characters'',
      Regex nineDigitsRegex ''Corporation number must contain only digits'']"

section \<open>The data model (types)\<close>

record OnboardingFormData =
  firstName :: string
  lastName :: string
  phone :: string
  corporationNumber :: string

text \<open>\<open>CorporationValidationResponse\<close>; its \<open>corporationNumber\<close> is \<open>cv_corporationNumber\<close>
  here, and an absent \<open>message\<close> is \<open>None\<close>.\<close>

record CorporationValidationResponse =
  cv_corporationNumber :: string
  valid :: bool
  message :: "string option"

text \<open>\<open>ApiError\<close>; its \<open>message\<close> is \<open>api_message\<close> here.\<close>

record ApiError =
  api_message :: string
  status :: "nat option"

text \<open>The object schema: every field is parsed on its own; the form is accepted when no
  field has an issue, and the accepted data are the parsed (trimmed) values.\<close>

definition onboardingFormSchema :: "OnboardingFormData \<Rightarrow> string list + OnboardingFormData" where
  "onboardingFormSchema d =
     (case (runChecks firstNameSchema (firstName d) [],
            runChecks lastNameSchema (lastName d) [],
            runChecks phoneSchema (phone d) [],
            runChecks corporationNumberSchema (corporationNumber d) []) of
        ((f, fi), (l, li), (p, pi), (c, ci)) \<Rightarrow>
          if fi @ li @ pi @ ci = []
          then Inr \<lparr>firstName = f, lastName = l, phone = p, corporationNumber = c\<rparr>
          else Inl (fi @ li @ pi @ ci))"

section \<open>The transport and the API service (services/api)\<close>

text \<open>
  The remote service is the environment. What the HTTP client's own request settles to,
  before the response interceptor runs: the response data, or an Axios error. The error
  has the client's own message (for a response outside 2xx, a text such as
  \<open>Request failed with status code 400\<close>) and, when the service answered, the response:
  its status and the message of its body, where the authority says why it refused.
\<close>

record ErrorResponse =
  response_status :: nat
  body_message :: "string option"

record AxiosError =
  axios_message :: string
  response :: "ErrorResponse option"

datatype 'a settled = Fulfilled 'a | Rejected AxiosError

record transport =
  get_corporation_number :: "string \<Rightarrow> CorporationValidationResponse settled"
  post_profile_details :: "OnboardingFormData \<Rightarrow> unit settled"

text \<open>The requests sent, oldest first. The source keeps no such list; it records
  which calls an operation has made, and in which order.\<close>

datatype request =
    GET_corporation_number string
  | POST_profile_details OnboardingFormData

text \<open>A value a promise rejects with: an object literal, or an instance of \<open>Error\<close>.\<close>

datatype rejection = PlainObject ApiError | ErrorInstance ApiError

fun instanceofError :: "rejection \<Rightarrow> bool" where
  "instanceofError (PlainObject e) = False"
| "instanceofError (ErrorInstance e) = True"

fun asApiError :: "rejection \<Rightarrow> ApiError" where
  "asApiError (PlainObject e) = e"
| "asApiError (ErrorInstance e) = e"

text \<open>The response interceptor's handler of a rejection: it builds a new object literal.\<close>

definition responseInterceptor :: "AxiosError \<Rightarrow> rejection" where
  "responseInterceptor error =
     PlainObject
       \<lparr>api_message =
          (if axios_message error = [] then ''An unexpected error occurred''
           else axios_message error),
        status = map_option response_status (response error)\<rparr>"

definition client_get ::
  "transport \<Rightarrow> string \<Rightarrow> request list \<Rightarrow>
   (rejection + CorporationValidationResponse) \<times> request list" where
  "client_get t cn sent =
     (case get_corporation_number t cn of
        Fulfilled data \<Rightarrow> (Inr data, sent @ [GET_corporation_number cn])
      | Rejected e \<Rightarrow> (Inl (responseInterceptor e), sent @ [GET_corporation_number cn]))"

definition client_post ::
  "transport \<Rightarrow> OnboardingFormData \<Rightarrow> request list \<Rightarrow> (rejection + unit) \<times> request list" where
  "client_post t formData sent =
     (case post_profile_details t formData of
        Fulfilled u \<Rightarrow> (Inr (), sent @ [POST_profile_details formData])
      | Rejected e \<Rightarrow> (Inl (responseInterceptor e), sent @ [POST_profile_details formData]))"

text \<open>\<open>ApiService.validateCorporationNumber\<close>: \<open>Inl\<close> is the error thrown again.\<close>

definition api_validateCorporationNumber ::
  "transport \<Rightarrow> string \<Rightarrow> request list \<Rightarrow>
   (rejection + CorporationValidationResponse) \<times> request list" where
  "api_validateCorporationNumber t cn sent =
     (case client_get t cn sent of
        (Inr data, sent') \<Rightarrow> (Inr data, sent')
      | (Inl error, sent') \<Rightarrow>
          if instanceofError error \<and> status (asApiError error) = Some 400
          then (Inr \<lparr>cv_corporationNumber = cn, valid = False,
                      message = Some (api_message (asApiError error))\<rparr>, sent')
          else (Inl error, sent'))"

definition api_submitProfileDetails ::
  "transport \<Rightarrow> OnboardingFormData \<Rightarrow> request list \<Rightarrow> (rejection + unit) \<times> request list" where
  "api_submitProfileDetails t formData sent = client_post t formData sent"

section \<open>The state of the form and its hooks\<close>

text \<open>
  The state of the component: \<open>formErrors\<close> (OnboardingForm), \<open>isValidating\<close> and
  \<open>validationResult\<close> (useCorporationValidation), \<open>isSubmitting\<close>, \<open>submitError\<close> and
  \<open>isSuccess\<close> (useFormSubmission), and the requests sent so far.
\<close>

record form_state =
  formErrors :: "string \<rightharpoonup> string"
  isValidating :: bool
  validationResult :: "CorporationValidationResponse option"
  isSubmitting :: bool
  submitError :: "string option"
  isSuccess :: bool
  requests :: "request list"

definition initialState :: form_state where
  "initialState =
     \<lparr>formErrors = Map.empty, isValidating = False, validationResult = None,
      isSubmitting = False, submitError = None, isSuccess = False, requests = []\<rparr>"

text \<open>useCorporationValidation.validateCorporationNumber: what the call returns
  (\<open>None\<close> is \<open>undefined\<close>) and the state when it has completed.\<close>

definition validateCorporationNumber ::
  "transport \<Rightarrow> string \<Rightarrow> form_state \<Rightarrow> CorporationValidationResponse option \<times> form_state" where
  "validateCorporationNumber t cn st =
     (if cn = [] \<or> length cn \<noteq> 9 then (None, st\<lparr>validationResult := None\<rparr>)
      else
        (case api_validateCorporationNumber t cn (requests (st\<lparr>isValidating := True\<rparr>)) of
           (Inr result, sent) \<Rightarrow>
             (Some result,
              st\<lparr>validationResult := Some result, requests := sent, isValidating := False\<rparr>)
         | (Inl error, sent) \<Rightarrow>
             (let result =
                \<lparr>cv_corporationNumber = cn, valid = False,
                 message =
                   Some (if api_message (asApiError error) = []
                         then ''Failed to validate corporation number''
                         else api_message (asApiError error))\<rparr>
              in (Some result,
                  st\<lparr>validationResult := Some result, requests := sent,
                     isValidating := False\<rparr>))))"

definition clearValidation :: "form_state \<Rightarrow> form_state" where
  "clearValidation st = st\<lparr>validationResult := None\<rparr>"

record submit_result =
  success :: bool
  error :: "string option"

text \<open>useFormSubmission.submitForm.\<close>

definition submitForm ::
  "transport \<Rightarrow> OnboardingFormData \<Rightarrow> form_state \<Rightarrow> submit_result \<times> form_state" where
  "submitForm t formData st =
     (let st1 = st\<lparr>isSubmitting := True, submitError := None, isSuccess := False\<rparr> in
      case api_submitProfileDetails t formData (requests st1) of
        (Inr u, sent) \<Rightarrow>
          (\<lparr>success = True, error = None\<rparr>,
           st1\<lparr>isSuccess := True, requests := sent, isSubmitting := False\<rparr>)
      | (Inl e, sent) \<Rightarrow>
          (let errorMessage =
             (if api_message (asApiError e) = [] then ''Failed to submit form''
              else api_message (asApiError e))
           in (\<lparr>success = False, error = Some errorMessage\<rparr>,
               st1\<lparr>submitError := Some errorMessage, requests := sent,
                   isSubmitting := False\<rparr>)))"

definition resetSubmission :: "form_state \<Rightarrow> form_state" where
  "resetSubmission st = st\<lparr>submitError := None, isSuccess := False\<rparr>"

section \<open>The handlers of the form (components/OnboardingForm)\<close>

text \<open>The watched value of the corporation-number field is \<open>None\<close> while it is
  \<open>undefined\<close>.\<close>

definition handleCorporationNumberBlur ::
  "transport \<Rightarrow> string option \<Rightarrow> form_state \<Rightarrow> form_state" where
  "handleCorporationNumberBlur t watchedCorporationNumber st =
     (case watchedCorporationNumber of
        None \<Rightarrow> st
      | Some currentValue \<Rightarrow>
          if currentValue \<noteq> [] \<and> length currentValue = 9
          then snd (validateCorporationNumber t currentValue st)
          else st)"

definition handlePhoneChange :: "string \<Rightarrow> string" where
  "handlePhoneChange raw = cleanPhoneInput raw"

text \<open>The change handler of the corporation-number field: the stored value after
  the event (\<open>/\D/g\<close> removed from the typed text, stored when at most 9 long).\<close>

definition handleCorporationNumberChange :: "string \<Rightarrow> string option \<Rightarrow> string option" where
  "handleCorporationNumberChange raw stored =
     (let v = filter isDigit raw in
      if length v \<le> 9 then Some v else stored)"

text \<open>\<open>r.message || 'Invalid corporation number'\<close>.\<close>

definition messageOrInvalid :: "CorporationValidationResponse \<Rightarrow> string" where
  "messageOrInvalid r =
     (case message r of
        None \<Rightarrow> ''Invalid corporation number''
      | Some m \<Rightarrow> if m = [] then ''Invalid corporation number'' else m)"

text \<open>Lines 62 to 70 of \<open>onSubmit\<close>: the check of the record that the callback closed
  over (\<open>held\<close>), then the submission.\<close>

definition onSubmit_rest ::
  "transport \<Rightarrow> OnboardingFormData \<Rightarrow> CorporationValidationResponse option \<Rightarrow>
   form_state \<Rightarrow> form_state" where
  "onSubmit_rest t data held st =
     (let send =
        (case submitForm t data st of
           (result, st') \<Rightarrow>
             if \<not> success result
             then st'\<lparr>formErrors :=
                    [''submit'' \<mapsto>
                       (case error result of
                          None \<Rightarrow> ''Failed to submit form''
                        | Some m \<Rightarrow> if m = [] then ''Failed to submit form'' else m)]\<rparr>
             else st')
      in case held of
           None \<Rightarrow> send
         | Some r \<Rightarrow>
             if \<not> valid r then st\<lparr>formErrors := [''corporationNumber'' \<mapsto> messageOrInvalid r]\<rparr>
             else send)"

text \<open>\<open>onSubmit\<close>. The callback reads \<open>validationResult\<close> from its closure: the record held
  when it was invoked, also after the verification it awaits has stored a new one.\<close>

definition onSubmit :: "transport \<Rightarrow> OnboardingFormData \<Rightarrow> form_state \<Rightarrow> form_state" where
  "onSubmit t data st =
     (let held = validationResult st;
          st1 = resetSubmission (st\<lparr>formErrors := Map.empty\<rparr>)
      in if corporationNumber data \<noteq> [] \<and>
            (case held of
               None \<Rightarrow> True
             | Some r \<Rightarrow> cv_corporationNumber r \<noteq> corporationNumber data)
         then
           (case validateCorporationNumber t (corporationNumber data) st1 of
              (None, st2) \<Rightarrow> onSubmit_rest t data held st2
            | (Some corpValidation, st2) \<Rightarrow>
                if \<not> valid corpValidation
                then st2\<lparr>formErrors :=
                       [''corporationNumber'' \<mapsto> messageOrInvalid corpValidation]\<rparr>
                else onSubmit_rest t data held st2)
         else onSubmit_rest t data held st1)"

text \<open>\<open>handleSubmit(onSubmit)\<close>: the resolver runs the schema on the form's values, and
  \<open>onSubmit\<close> is called with the parsed data only when the schema accepts them.\<close>

definition handleSubmit :: "transport \<Rightarrow> OnboardingFormData \<Rightarrow> form_state \<Rightarrow> form_state" where
  "handleSubmit t values st =
     (case onboardingFormSchema values of
        Inl issues \<Rightarrow> st
      | Inr data \<Rightarrow> onSubmit t data st)"

text \<open>The error rendered for the corporation-number field. \<open>a || b\<close> is \<open>a\<close> when \<open>a\<close> is
  truthy (a non-empty string), else \<open>b\<close>.\<close>

definition truthy :: "string option \<Rightarrow> bool" where
  "truthy v = (case v of None \<Rightarrow> False | Some s \<Rightarrow> s \<noteq> [])"

definition jsOr :: "string option \<Rightarrow> string option \<Rightarrow> string option" where
  "jsOr a b = (if truthy a then a else b)"

definition corporationNumberError ::
  "string option \<Rightarrow> CorporationValidationResponse option \<Rightarrow> (string \<rightharpoonup> string) \<Rightarrow>
   string option" where
  "corporationNumberError schemaMessage held errs =
     jsOr
       (jsOr schemaMessage
          (case held of
             None \<Rightarrow> None
           | Some r \<Rightarrow> if \<not> valid r then message r else None))
       (errs ''corporationNumber'')"

text \<open>What the resolver reports for the corporation-number field: the message of the
  first issue of its schema, if there is one.\<close>

definition errorsCorporationNumber :: "string \<Rightarrow> string option" where
  "errorsCorporationNumber v =
     (case snd (runChecks corporationNumberSchema v []) of
        [] \<Rightarrow> None
      | m # ms \<Rightarrow> Some m)"

text \<open>The stored corporation number after a sequence of change events, each given by the
  text of the input at the event, and the property the stored value keeps.\<close>

fun changeEvents :: "string list \<Rightarrow> string option \<Rightarrow> string option" where
  "changeEvents [] stored = stored"
| "changeEvents (raw # raws) stored = changeEvents raws (handleCorporationNumberChange raw stored)"

definition atMostNineDigits :: "string option \<Rightarrow> bool" where
  "atMostNineDigits stored =
     (case stored of None \<Rightarrow> True | Some v \<Rightarrow> length v \<le> 9 \<and> list_all isDigit v)"

text \<open>A transport whose two endpoints settle in a fixed way, whatever the request, and
  the verdict that the verification of a 9-character number ends with: the response's
  data, or an invalid record that carries the message of the failure.\<close>

definition constTransport :: "CorporationValidationResponse settled \<Rightarrow> unit settled \<Rightarrow> transport" where
  "constTransport g p = \<lparr>get_corporation_number = (\<lambda>cn. g), post_profile_details = (\<lambda>d. p)\<rparr>"

definition remoteVerdict :: "transport \<Rightarrow> string \<Rightarrow> CorporationValidationResponse" where
  "remoteVerdict t cn =
     (case get_corporation_number t cn of
        Fulfilled data \<Rightarrow> data
      | Rejected e \<Rightarrow>
          \<lparr>cv_corporationNumber = cn, valid = False,
           message =
             Some (if axios_message e = [] then ''An unexpected error occurred''
                   else axios_message e)\<rparr>)"

text \<open>The data of the end-to-end scenario: the form as filled in (the phone as typed, then
  normalised by the change handler), and the verifier's answer \<open>{valid: true}\<close>.\<close>

definition johnDoe :: OnboardingFormData where
  "johnDoe =
     \<lparr>firstName = ''John'', lastName = ''Doe'', phone = handlePhoneChange ''3062776103'',
      corporationNumber = ''123456789''\<rparr>"

definition verdictValid :: CorporationValidationResponse where
  "verdictValid = \<lparr>cv_corporationNumber = ''123456789'', valid = True, message = None\<rparr>"

text \<open>A refusal by the authority: status 400, with the authority's message in the body and
  the HTTP client's own text as the message of the error.\<close>

definition refused400 :: AxiosError where
  "refused400 =
     \<lparr>axios_message = ''Request failed with status code 400'',
      response =
        Some \<lparr>response_status = 400, body_message = Some ''Invalid corporation number''\<rparr>\<rparr>"

section \<open>Properties of the phone normalizer\<close>

lemma keepDigitsAndPlus_chars:
  "list_all (\<lambda>c. isDigit c \<or> c = CHR ''+'') (keepDigitsAndPlus x)"
  by (simp add: keepDigitsAndPlus_def list_all_iff)

lemma keepDigitsAndPlus_fixed:
  "list_all (\<lambda>c. isDigit c \<or> c = CHR ''+'') s \<Longrightarrow> keepDigitsAndPlus s = s"
  by (simp add: keepDigitsAndPlus_def list_all_iff)

lemma dropLeadingPlus_chars:
  "list_all P s \<Longrightarrow> list_all P (dropLeadingPlus s)"
  by (cases s) (simp_all add: dropLeadingPlus_def)

lemma cleanPhoneInput_chars:
  "list_all (\<lambda>c. isDigit c \<or> c = CHR ''+'') (cleanPhoneInput x)"
proof -
  let ?P = "\<lambda>c. isDigit c \<or> c = CHR ''+''"
  have k: "list_all ?P (keepDigitsAndPlus x)" by (rule keepDigitsAndPlus_chars)
  have d: "list_all ?P (dropLeadingPlus (keepDigitsAndPlus x))"
    by (rule dropLeadingPlus_chars [OF k])
  have t: "list_all ?P (take 12 (keepDigitsAndPlus x))"
    using k by (auto simp: list_all_iff dest: in_set_takeD)
  have one: "isDigit CHR ''1''" by (simp add: isDigit_def)
  show ?thesis
    using k d t one by (simp add: cleanPhoneInput_def Let_def)
qed

lemma cleanPhoneInput_prefix: "startsWith (cleanPhoneInput x) ''+1''"
proof (cases "startsWith (keepDigitsAndPlus x) ''+1''")
  case True
  then show ?thesis
    by (simp add: cleanPhoneInput_def Let_def startsWith_def)
next
  case False
  then show ?thesis
    by (cases "keepDigitsAndPlus x") (auto simp: cleanPhoneInput_def Let_def startsWith_def)
qed

lemma cleanPhoneInput_fixed_when_short:
  assumes "length (cleanPhoneInput x) \<le> 12"
  shows "cleanPhoneInput (cleanPhoneInput x) = cleanPhoneInput x"
proof -
  have "keepDigitsAndPlus (cleanPhoneInput x) = cleanPhoneInput x"
    by (rule keepDigitsAndPlus_fixed [OF cleanPhoneInput_chars])
  moreover have "startsWith (cleanPhoneInput x) ''+1''" by (rule cleanPhoneInput_prefix)
  ultimately have "cleanPhoneInput (cleanPhoneInput x) = take 12 (cleanPhoneInput x)"
    by (simp add: cleanPhoneInput_def [of "cleanPhoneInput x"] Let_def)
  with assms show ?thesis by simp
qed

text \<open>
  C8, as the code has it. Every character of the normalised phone is a digit or a \<open>+\<close>:
  nothing else survives, and a \<open>+\<close> is not stripped for standing after the first
  character. The result always begins with \<open>+1\<close>. When the input, stripped of
  everything but digits and \<open>+\<close>, already begins with \<open>+1\<close>, the result is the first 12
  characters of that stripped input. The inputs \<open>''\<close>, \<open>'abc'\<close>, \<open>'+'\<close> and \<open>'1'\<close> all
  give \<open>'+1'\<close>.
\<close>

theorem cleanPhoneInput_digits_plus_prefix:
  "list_all (\<lambda>c. isDigit c \<or> c = CHR ''+'') (cleanPhoneInput x) \<and>
   startsWith (cleanPhoneInput x) ''+1'' \<and>
   (startsWith (keepDigitsAndPlus x) ''+1'' \<longrightarrow>
      cleanPhoneInput x = take 12 (keepDigitsAndPlus x) \<and> length (cleanPhoneInput x) \<le> 12) \<and>
   cleanPhoneInput '''' = ''+1'' \<and> cleanPhoneInput ''abc'' = ''+1'' \<and>
   cleanPhoneInput ''+'' = ''+1'' \<and> cleanPhoneInput ''1'' = ''+1''"
proof -
  have trunc: "cleanPhoneInput x = take 12 (keepDigitsAndPlus x) \<and> length (cleanPhoneInput x) \<le> 12"
    if "startsWith (keepDigitsAndPlus x) ''+1''"
    using that by (simp add: cleanPhoneInput_def Let_def)
  have degenerate:
    "cleanPhoneInput '''' = ''+1''" "cleanPhoneInput ''abc'' = ''+1''"
    "cleanPhoneInput ''+'' = ''+1''" "cleanPhoneInput ''1'' = ''+1''"
    by (simp_all add: cleanPhoneInput_def keepDigitsAndPlus_def dropLeadingPlus_def
        startsWith_def isDigit_def Let_def)
  show ?thesis
    using cleanPhoneInput_chars [of x] cleanPhoneInput_prefix [of x] trunc degenerate
    by blast
qed

theorem cleanPhoneInput_digits_plus_prefix_witness:
  "startsWith (keepDigitsAndPlus ''+1 (306) 277-6103 ext 9'') ''+1'' \<and>
   cleanPhoneInput ''+1 (306) 277-6103 ext 9'' = ''+13062776103'' \<and>
   length (cleanPhoneInput ''+1 (306) 277-6103 ext 9'') \<le> 12 \<and>
   startsWith (cleanPhoneInput ''+1 (306) 277-6103 ext 9'') ''+1''"
proof -
  have k: "keepDigitsAndPlus ''+1 (306) 277-6103 ext 9'' = ''+130627761039''"
    by (simp add: keepDigitsAndPlus_def isDigit_def)
  have h: "startsWith (keepDigitsAndPlus ''+1 (306) 277-6103 ext 9'') ''+1''"
    by (simp add: k startsWith_def)
  show ?thesis
    using h cleanPhoneInput_digits_plus_prefix [of "''+1 (306) 277-6103 ext 9''"]
    by (simp add: k startsWith_def)
qed

text \<open>
  C8, as stated, fails: a \<open>+\<close> that is not leading is not stripped. \<open>'+1+1'\<close> is
  returned as it is, so after its first character the result is not made of digits only.
\<close>

theorem cleanPhoneInput_keeps_inner_plus:
  "\<not> list_all isDigit (tl (cleanPhoneInput ''+1+1''))"
  by (simp add: cleanPhoneInput_def keepDigitsAndPlus_def startsWith_def isDigit_def Let_def)

text \<open>
  C7. The normaliser is not idempotent. Twelve digits beginning with \<open>1\<close> get a \<open>+\<close> in
  front and are returned 13 characters long, the truncation to 12 being made only on the
  path whose input already begins with \<open>+1\<close>; normalising that result again takes this
  path and cuts the last digit off.
\<close>

theorem cleanPhoneInput_not_idempotent:
  "cleanPhoneInput ''123456789012'' = ''+123456789012'' \<and>
   cleanPhoneInput (cleanPhoneInput ''123456789012'') = ''+12345678901'' \<and>
   cleanPhoneInput (cleanPhoneInput ''123456789012'') \<noteq> cleanPhoneInput ''123456789012''"
  by (simp add: cleanPhoneInput_def keepDigitsAndPlus_def startsWith_def isDigit_def Let_def)

section \<open>Properties of the schema validator\<close>

lemma trim_spaces: "trim ''   '' = []"
  by (simp add: trim_def isWhiteSpace_def)

text \<open>What the two name schemas compute. The length checks come before \<open>trim\<close> in the
  chain, so they see the string as entered; the parsed value is the trimmed string.\<close>

lemma name_schema_checks_raw_length:
  "safeParse firstNameSchema s =
     (if s = [] then Inl [''First name is required'']
      else if 50 < length s then Inl [''First name must be 50 characters or less'']
      else Inr (trim s)) \<and>
   safeParse lastNameSchema s =
     (if s = [] then Inl [''Last name is required'']
      else if 50 < length s then Inl [''Last name must be 50 characters or less'']
      else Inr (trim s))"
proof (cases "s = []")
  case True
  then show ?thesis
    by (simp add: safeParse_def firstNameSchema_def lastNameSchema_def)
next
  case False
  then have "\<not> length s < 1" by (cases s) simp_all
  then show ?thesis
    using False by (simp add: safeParse_def firstNameSchema_def lastNameSchema_def)
qed

text \<open>
  C9. A name must be non-empty after trimming. The schema does not enforce it: a string of
  three spaces passes \<open>min(1)\<close>, which runs on the untrimmed string, and only then is
  trimmed. Both fields accept it and parse it to the empty string, a value that the same
  schemas refuse, as required, when it is the input.
\<close>

theorem name_schema_accepts_whitespace:
  "trim ''   '' = [] \<and>
   safeParse firstNameSchema ''   '' = Inr [] \<and>
   safeParse lastNameSchema ''   '' = Inr [] \<and>
   safeParse firstNameSchema [] = Inl [''First name is required''] \<and>
   safeParse lastNameSchema [] = Inl [''Last name is required'']"
  by (simp add: safeParse_def firstNameSchema_def lastNameSchema_def trim_spaces)

section \<open>Properties of the change handler of the corporation number\<close>

lemma handleCorporationNumberChange_keeps:
  "atMostNineDigits stored \<Longrightarrow> atMostNineDigits (handleCorporationNumberChange raw stored)"
  by (simp add: handleCorporationNumberChange_def atMostNineDigits_def Let_def list_all_iff)

lemma changeEvents_keeps:
  "atMostNineDigits stored \<Longrightarrow> atMostNineDigits (changeEvents raws stored)"
proof (induction raws arbitrary: stored)
  case Nil
  then show ?case by simp
next
  case (Cons raw raws)
  from Cons.prems have "atMostNineDigits (handleCorporationNumberChange raw stored)"
    by (rule handleCorporationNumberChange_keeps)
  then show ?case by (simp add: Cons.IH)
qed

text \<open>
  C10. A change event strips the non-digits from the typed text. When more than 9 digits
  remain, the stored value is left as it was; otherwise the digits become the stored
  value. So after any sequence of change events, from the unset field or from any value
  of at most 9 digits, the stored value has at most 9 characters, all of them digits.
\<close>

theorem corporationNumber_change_invariant:
  "(9 < length (filter isDigit raw) \<longrightarrow> handleCorporationNumberChange raw stored = stored) \<and>
   (length (filter isDigit raw) \<le> 9 \<longrightarrow>
      handleCorporationNumberChange raw stored = Some (filter isDigit raw)) \<and>
   atMostNineDigits (changeEvents raws None) \<and>
   (atMostNineDigits stored \<longrightarrow> atMostNineDigits (changeEvents raws stored))"
proof -
  have "atMostNineDigits None" by (simp add: atMostNineDigits_def)
  then have "atMostNineDigits (changeEvents raws None)" by (rule changeEvents_keeps)
  then show ?thesis
    using changeEvents_keeps [of stored raws]
    by (simp add: handleCorporationNumberChange_def Let_def)
qed

theorem corporationNumber_change_invariant_witness:
  "9 < length (filter isDigit ''1234567890'') \<and>
   handleCorporationNumberChange ''1234567890'' (Some ''123456789'') = Some ''123456789'' \<and>
   length (filter isDigit ''12a-3'') \<le> 9 \<and>
   handleCorporationNumberChange ''12a-3'' (Some ''123456789'') = Some ''123'' \<and>
   atMostNineDigits (Some ''123456789'') \<and>
   atMostNineDigits (changeEvents [''12a-3'', ''1234567890''] (Some ''123456789'')) \<and>
   changeEvents [''12a-3'', ''1234567890''] (Some ''123456789'') = Some ''123''"
proof -
  have ok: "atMostNineDigits (Some ''123456789'')"
    by (simp add: atMostNineDigits_def isDigit_def)
  have run: "changeEvents [''12a-3'', ''1234567890''] (Some ''123456789'') = Some ''123''"
    by (simp add: handleCorporationNumberChange_def Let_def isDigit_def)
  show ?thesis
    using corporationNumber_change_invariant
            [of "''1234567890''" "Some ''123456789''" "[''12a-3'', ''1234567890'']"]
          corporationNumber_change_invariant
            [of "''12a-3''" "Some ''123456789''" "[''12a-3'', ''1234567890'']"]
          ok run
    by (simp add: isDigit_def)
qed

section \<open>Properties of the rendered corporation-number error\<close>

lemma errorsCorporationNumber_truthy:
  "errorsCorporationNumber v \<noteq> None \<Longrightarrow> truthy (errorsCorporationNumber v)"
  by (simp add: errorsCorporationNumber_def corporationNumberSchema_def truthy_def
      split: if_splits)

lemma errorsCorporationNumber_None_iff:
  "errorsCorporationNumber v = None \<longleftrightarrow> length v = 9 \<and> list_all isDigit v"
  by (cases "v = []")
     (auto simp: errorsCorporationNumber_def corporationNumberSchema_def nineDigitsRegex_def)

text \<open>
  C5. The error rendered for the corporation-number field is one optional message, chosen
  by precedence: the schema's message when there is one; else the message of the held
  record when that record is invalid and has a message; else the entry that \<open>onSubmit\<close>
  recorded under \<open>corporationNumber\<close>. The schema's message, when the stored value does
  not pass the schema, is never empty, so it always wins.
\<close>

theorem corporationNumberError_precedence:
  "(truthy schemaMessage \<longrightarrow> corporationNumberError schemaMessage held errs = schemaMessage) \<and>
   (\<not> truthy schemaMessage \<and> held = Some r \<and> \<not> valid r \<and> truthy (message r) \<longrightarrow>
      corporationNumberError schemaMessage held errs = message r) \<and>
   (\<not> truthy schemaMessage \<and> held = Some r \<and> (valid r \<or> \<not> truthy (message r)) \<longrightarrow>
      corporationNumberError schemaMessage held errs = errs ''corporationNumber'') \<and>
   (\<not> truthy schemaMessage \<and> held = None \<longrightarrow>
      corporationNumberError schemaMessage held errs = errs ''corporationNumber'') \<and>
   (errorsCorporationNumber v \<noteq> None \<longrightarrow>
      corporationNumberError (errorsCorporationNumber v) held errs = errorsCorporationNumber v)"
proof -
  have "truthy (errorsCorporationNumber v)" if "errorsCorporationNumber v \<noteq> None"
    using that by (rule errorsCorporationNumber_truthy)
  moreover have "\<not> truthy None" by (simp add: truthy_def)
  ultimately show ?thesis
    by (auto simp: corporationNumberError_def jsOr_def)
qed

theorem corporationNumberError_precedence_witness:
  "truthy (Some ''Corporation number is required'') \<and>
   corporationNumberError (Some ''Corporation number is required'')
     (Some \<lparr>cv_corporationNumber = ''111111111'', valid = False, message = Some ''Not found''\<rparr>)
     [''corporationNumber'' \<mapsto> ''Earlier''] = Some ''Corporation number is required'' \<and>
   errorsCorporationNumber ''12345'' = Some ''Corporation number must be exactly 9 characters'' \<and>
   corporationNumberError (errorsCorporationNumber ''12345'')
     (Some \<lparr>cv_corporationNumber = ''111111111'', valid = False, message = Some ''Not found''\<rparr>)
     [''corporationNumber'' \<mapsto> ''Earlier''] =
     Some ''Corporation number must be exactly 9 characters'' \<and>
   \<not> truthy None \<and>
   truthy (message \<lparr>cv_corporationNumber = ''111111111'', valid = False,
                    message = Some ''Not found''\<rparr>) \<and>
   corporationNumberError None
     (Some \<lparr>cv_corporationNumber = ''111111111'', valid = False, message = Some ''Not found''\<rparr>)
     [''corporationNumber'' \<mapsto> ''Earlier''] = Some ''Not found'' \<and>
   corporationNumberError None
     (Some \<lparr>cv_corporationNumber = ''111111111'', valid = True, message = None\<rparr>)
     [''corporationNumber'' \<mapsto> ''Earlier''] = Some ''Earlier'' \<and>
   corporationNumberError None None [''corporationNumber'' \<mapsto> ''Earlier''] = Some ''Earlier''"
proof -
  have e: "errorsCorporationNumber ''12345'' =
             Some ''Corporation number must be exactly 9 characters''"
    by (simp add: errorsCorporationNumber_def corporationNumberSchema_def nineDigitsRegex_def)
  show ?thesis
    using corporationNumberError_precedence
            [where schemaMessage = "Some ''Corporation number is required''"
               and held = "Some \<lparr>cv_corporationNumber = ''111111111'', valid = False,
                                 message = Some ''Not found''\<rparr>"
               and errs = "[''corporationNumber'' \<mapsto> ''Earlier'']" and v = "''12345''"]
          corporationNumberError_precedence
            [where schemaMessage = None
               and held = "Some \<lparr>cv_corporationNumber = ''111111111'', valid = False,
                                 message = Some ''Not found''\<rparr>"
               and r = "\<lparr>cv_corporationNumber = ''111111111'', valid = False,
                         message = Some ''Not found''\<rparr>"
               and errs = "[''corporationNumber'' \<mapsto> ''Earlier'']" and v = "''12345''"]
          corporationNumberError_precedence
            [where schemaMessage = None
               and held = "Some \<lparr>cv_corporationNumber = ''111111111'', valid = True,
                                 message = None\<rparr>"
               and r = "\<lparr>cv_corporationNumber = ''111111111'', valid = True,
                         message = None\<rparr>"
               and errs = "[''corporationNumber'' \<mapsto> ''Earlier'']" and v = "''12345''"]
          corporationNumberError_precedence
            [where schemaMessage = None and held = None
               and errs = "[''corporationNumber'' \<mapsto> ''Earlier'']" and v = "''12345''"]
    by (simp add: e truthy_def)
qed

section \<open>Properties of the remote verifier\<close>

lemma responseInterceptor_message:
  "api_message (asApiError (responseInterceptor e)) =
     (if axios_message e = [] then ''An unexpected error occurred'' else axios_message e)"
  by (simp add: responseInterceptor_def)

lemma responseInterceptor_message_nonempty:
  "api_message (asApiError (responseInterceptor e)) \<noteq> []"
  by (simp add: responseInterceptor_def)

text \<open>The interceptor rejects with an object literal, which is no instance of \<open>Error\<close>: the
  branch of \<open>ApiService.validateCorporationNumber\<close> for status 400 is never taken, and
  every failure, a 400 too, is thrown on to the hook.\<close>

lemma api_validateCorporationNumber_rethrows:
  "get_corporation_number t cn = Rejected e \<Longrightarrow>
   api_validateCorporationNumber t cn sent =
     (Inl (responseInterceptor e), sent @ [GET_corporation_number cn])"
  by (simp add: api_validateCorporationNumber_def client_get_def responseInterceptor_def)

lemma api_validateCorporationNumber_data:
  "get_corporation_number t cn = Fulfilled data \<Longrightarrow>
   api_validateCorporationNumber t cn sent = (Inr data, sent @ [GET_corporation_number cn])"
  by (simp add: api_validateCorporationNumber_def client_get_def)

lemma validateCorporationNumber_nine:
  assumes "length cn = 9"
  shows "validateCorporationNumber t cn st =
           (Some (remoteVerdict t cn),
            st\<lparr>validationResult := Some (remoteVerdict t cn),
               requests := requests st @ [GET_corporation_number cn],
               isValidating := False\<rparr>)"
proof (cases "get_corporation_number t cn")
  case (Fulfilled data)
  from assms have ne: "cn \<noteq> []" by auto
  show ?thesis
    using assms ne
    by (simp add: validateCorporationNumber_def remoteVerdict_def Fulfilled
        api_validateCorporationNumber_data [OF Fulfilled])
next
  case (Rejected e)
  from assms have ne: "cn \<noteq> []" by auto
  show ?thesis
    using assms ne
    by (simp add: validateCorporationNumber_def remoteVerdict_def Rejected Let_def
        api_validateCorporationNumber_rethrows [OF Rejected] responseInterceptor_def)
qed

lemma validateCorporationNumber_not_nine:
  assumes "length cn \<noteq> 9"
  shows "validateCorporationNumber t cn st = (None, st\<lparr>validationResult := None\<rparr>)"
  using assms by (simp add: validateCorporationNumber_def)

text \<open>
  C3, as the code has it. For every number of 9 characters (so for every 9-digit number),
  in every state and whatever the remote service does, the verification returns a
  verdict, stores it as the held record and is no longer validating: no failure reaches
  the caller as an exception. When the request succeeds the verdict is the response's
  data. When it fails, with status 400 or with any other status or none (timeout,
  network), the verdict is invalid, names the number, and carries the HTTP client's own
  message of the failure, or \<open>An unexpected error occurred\<close> when that is empty. The
  body of the response, the authority's message with it, is not read.
\<close>

theorem validateCorporationNumber_always_verdict:
  assumes "length cn = 9"
  shows "\<exists>v. fst (validateCorporationNumber t cn st) = Some v \<and>
             validationResult (snd (validateCorporationNumber t cn st)) = Some v \<and>
             \<not> isValidating (snd (validateCorporationNumber t cn st)) \<and>
             (case get_corporation_number t cn of
                Fulfilled data \<Rightarrow> v = data
              | Rejected e \<Rightarrow>
                  v = \<lparr>cv_corporationNumber = cn, valid = False,
                       message =
                         Some (if axios_message e = [] then ''An unexpected error occurred''
                               else axios_message e)\<rparr> \<and>
                  message v \<noteq> Some [])"
proof -
  have "case get_corporation_number t cn of
          Fulfilled data \<Rightarrow> remoteVerdict t cn = data
        | Rejected e \<Rightarrow>
            remoteVerdict t cn =
              \<lparr>cv_corporationNumber = cn, valid = False,
               message =
                 Some (if axios_message e = [] then ''An unexpected error occurred''
                       else axios_message e)\<rparr> \<and>
            message (remoteVerdict t cn) \<noteq> Some []"
    by (simp add: remoteVerdict_def split: settled.splits)
  then show ?thesis
    by (simp add: validateCorporationNumber_nine [OF assms])
qed

theorem validateCorporationNumber_always_verdict_witness:
  "length ''123456789'' = 9 \<and>
   fst (validateCorporationNumber (constTransport (Rejected refused400) (Fulfilled ()))
          ''123456789'' initialState) =
     Some \<lparr>cv_corporationNumber = ''123456789'', valid = False,
           message = Some ''Request failed with status code 400''\<rparr> \<and>
   validationResult
     (snd (validateCorporationNumber (constTransport (Rejected refused400) (Fulfilled ()))
             ''123456789'' initialState)) =
     Some \<lparr>cv_corporationNumber = ''123456789'', valid = False,
           message = Some ''Request failed with status code 400''\<rparr>"
proof -
  have h: "length ''123456789'' = 9" by simp
  show ?thesis
    using validateCorporationNumber_always_verdict
            [OF h, of "constTransport (Rejected refused400) (Fulfilled ())" initialState]
    by (auto simp: constTransport_def refused400_def)
qed

text \<open>
  C3, as stated, fails: the message of a verdict made from a 400 is not the authority's.
  The service refuses \<open>123456789\<close> with status 400 and the body message
  \<open>Invalid corporation number\<close>; the verdict carries the client's text
  \<open>Request failed with status code 400\<close> instead.
\<close>

theorem verdict_message_not_from_body:
  "map_option response_status (response refused400) = Some 400 \<and>
   Option.bind (response refused400) body_message = Some ''Invalid corporation number'' \<and>
   map_option message
     (fst (validateCorporationNumber (constTransport (Rejected refused400) (Fulfilled ()))
             ''123456789'' initialState)) =
     Some (Some ''Request failed with status code 400'') \<and>
   map_option message
     (fst (validateCorporationNumber (constTransport (Rejected refused400) (Fulfilled ()))
             ''123456789'' initialState)) \<noteq>
     Some (Option.bind (response refused400) body_message)"
proof -
  have nine: "length ''123456789'' = 9" by simp
  show ?thesis
    by (simp add: validateCorporationNumber_nine [OF nine] remoteVerdict_def
        constTransport_def refused400_def)
qed

text \<open>
  C6, as the code has it. The hook, called with a value whose length is not 9 (the empty
  string too), sends no request and sets the held record to null; a value of 9 characters
  is sent to the verifier, digits or not. The blur handler tests the length itself: for
  an unset field or a value whose length is not 9 it does not call the hook, so it sends
  no request and leaves the state, the held record with it, as it was.
\<close>

theorem not_nine_characters_no_request:
  "(length cn \<noteq> 9 \<longrightarrow>
      fst (validateCorporationNumber t cn st) = None \<and>
      requests (snd (validateCorporationNumber t cn st)) = requests st \<and>
      validationResult (snd (validateCorporationNumber t cn st)) = None) \<and>
   (length cn = 9 \<longrightarrow>
      requests (snd (validateCorporationNumber t cn st)) =
        requests st @ [GET_corporation_number cn]) \<and>
   (length cn \<noteq> 9 \<longrightarrow> handleCorporationNumberBlur t (Some cn) st = st) \<and>
   handleCorporationNumberBlur t None st = st"
  by (simp add: validateCorporationNumber_not_nine validateCorporationNumber_nine
      handleCorporationNumberBlur_def)

theorem not_nine_characters_no_request_witness:
  "length ''12345'' \<noteq> 9 \<and>
   validationResult
     (snd (validateCorporationNumber (constTransport (Fulfilled verdictValid) (Fulfilled ()))
             ''12345'' (initialState\<lparr>validationResult := Some verdictValid\<rparr>))) = None \<and>
   requests
     (snd (validateCorporationNumber (constTransport (Fulfilled verdictValid) (Fulfilled ()))
             ''12345'' (initialState\<lparr>validationResult := Some verdictValid\<rparr>))) = [] \<and>
   handleCorporationNumberBlur (constTransport (Fulfilled verdictValid) (Fulfilled ()))
     (Some ''12345'') (initialState\<lparr>validationResult := Some verdictValid\<rparr>) =
     initialState\<lparr>validationResult := Some verdictValid\<rparr> \<and>
   length ''123456789'' = 9 \<and>
   requests
     (snd (validateCorporationNumber (constTransport (Fulfilled verdictValid) (Fulfilled ()))
             ''123456789'' initialState)) = [GET_corporation_number ''123456789'']"
  using not_nine_characters_no_request
          [of "''12345''" "constTransport (Fulfilled verdictValid) (Fulfilled ())"
              "initialState\<lparr>validationResult := Some verdictValid\<rparr>"]
        not_nine_characters_no_request
          [of "''123456789''" "constTransport (Fulfilled verdictValid) (Fulfilled ())"
              initialState]
  by (simp add: initialState_def)

text \<open>
  C6, as stated, fails for the blur handler: with a held record and the value \<open>'12345'\<close> in
  the field, the record is still held after the blur. It also fails for the hook on a
  value of 9 characters that are not all digits: \<open>'12345678a'\<close> is sent to the verifier.
\<close>

theorem blur_keeps_held_record:
  "validationResult
     (handleCorporationNumberBlur
        (constTransport
           (Fulfilled \<lparr>cv_corporationNumber = ''123456789'', valid = True, message = None\<rparr>)
           (Fulfilled ()))
        (Some ''12345'')
        (initialState
           \<lparr>validationResult :=
              Some \<lparr>cv_corporationNumber = ''111111111'', valid = False,
                    message = Some ''Not found''\<rparr>\<rparr>)) =
     Some \<lparr>cv_corporationNumber = ''111111111'', valid = False, message = Some ''Not found''\<rparr> \<and>
   \<not> nineDigitsRegex ''12345678a'' \<and>
   requests
     (snd (validateCorporationNumber
             (constTransport
                (Fulfilled \<lparr>cv_corporationNumber = ''123456789'', valid = True, message = None\<rparr>)
                (Fulfilled ()))
             ''12345678a'' initialState)) = [GET_corporation_number ''12345678a'']"
  by (simp add: handleCorporationNumberBlur_def validateCorporationNumber_nine
      nineDigitsRegex_def isDigit_def initialState_def)

section \<open>Properties of the submission hook\<close>

text \<open>
  C4. In every state, so whatever error an earlier attempt left, and for every form data:
  when the submission endpoint succeeds, \<open>submitForm\<close> ends with \<open>isSuccess\<close> true and
  \<open>submitError\<close> null; when the API call fails with an error of message \<open>M\<close>, it ends
  with \<open>submitError\<close> equal to \<open>M\<close> and \<open>isSuccess\<close> false; \<open>isSubmitting\<close> is false at the
  end of both. The message \<open>M\<close> is the one of the transport's error, or
  \<open>An unexpected error occurred\<close> when that is empty.
\<close>

theorem submitForm_outcome:
  "(post_profile_details t formData = Fulfilled () \<longrightarrow>
      isSuccess (snd (submitForm t formData st)) \<and>
      submitError (snd (submitForm t formData st)) = None \<and>
      \<not> isSubmitting (snd (submitForm t formData st))) \<and>
   (fst (api_submitProfileDetails t formData (requests st)) = Inl e \<longrightarrow>
      submitError (snd (submitForm t formData st)) = Some (api_message (asApiError e)) \<and>
      \<not> isSuccess (snd (submitForm t formData st)) \<and>
      \<not> isSubmitting (snd (submitForm t formData st))) \<and>
   (post_profile_details t formData = Rejected a \<longrightarrow>
      fst (api_submitProfileDetails t formData (requests st)) = Inl (responseInterceptor a) \<and>
      api_message (asApiError (responseInterceptor a)) =
        (if axios_message a = [] then ''An unexpected error occurred'' else axios_message a))"
proof (cases "post_profile_details t formData")
  case (Fulfilled u)
  then show ?thesis
    by (simp add: submitForm_def api_submitProfileDetails_def client_post_def Let_def)
next
  case (Rejected a')
  then show ?thesis
    by (auto simp: submitForm_def api_submitProfileDetails_def client_post_def Let_def
        responseInterceptor_def)
qed

theorem submitForm_outcome_witness:
  "post_profile_details (constTransport (Fulfilled verdictValid) (Fulfilled ())) johnDoe = Fulfilled () \<and>
   isSuccess
     (snd (submitForm (constTransport (Fulfilled verdictValid) (Fulfilled ())) johnDoe
             (initialState\<lparr>submitError := Some ''Earlier failure''\<rparr>))) \<and>
   submitError
     (snd (submitForm (constTransport (Fulfilled verdictValid) (Fulfilled ())) johnDoe
             (initialState\<lparr>submitError := Some ''Earlier failure''\<rparr>))) = None \<and>
   post_profile_details
     (constTransport (Fulfilled verdictValid)
        (Rejected \<lparr>axios_message = ''Invalid phone number'', response = Some \<lparr>response_status = 400, body_message = Some ''Refused''\<rparr>\<rparr>)) johnDoe =
     Rejected \<lparr>axios_message = ''Invalid phone number'', response = Some \<lparr>response_status = 400, body_message = Some ''Refused''\<rparr>\<rparr> \<and>
   submitError
     (snd (submitForm
             (constTransport (Fulfilled verdictValid)
                (Rejected \<lparr>axios_message = ''Invalid phone number'',
                           response = Some \<lparr>response_status = 400, body_message = Some ''Refused''\<rparr>\<rparr>)) johnDoe initialState)) =
     Some ''Invalid phone number'' \<and>
   \<not> isSuccess
     (snd (submitForm
             (constTransport (Fulfilled verdictValid)
                (Rejected \<lparr>axios_message = ''Invalid phone number'',
                           response = Some \<lparr>response_status = 400, body_message = Some ''Refused''\<rparr>\<rparr>)) johnDoe initialState))"
proof -
  have ok: "post_profile_details (constTransport (Fulfilled verdictValid) (Fulfilled ())) johnDoe = Fulfilled ()"
    by (simp add: constTransport_def)
  have ko:
    "post_profile_details
       (constTransport (Fulfilled verdictValid)
          (Rejected \<lparr>axios_message = ''Invalid phone number'', response = Some \<lparr>response_status = 400, body_message = Some ''Refused''\<rparr>\<rparr>)) johnDoe =
     Rejected \<lparr>axios_message = ''Invalid phone number'', response = Some \<lparr>response_status = 400, body_message = Some ''Refused''\<rparr>\<rparr>"
    by (simp add: constTransport_def)
  show ?thesis
    using ok ko
      submitForm_outcome
        [where t = "constTransport (Fulfilled verdictValid) (Fulfilled ())" and formData = johnDoe
           and st = "initialState\<lparr>submitError := Some ''Earlier failure''\<rparr>"]
      submitForm_outcome
        [where t = "constTransport (Fulfilled verdictValid)
                      (Rejected \<lparr>axios_message = ''Invalid phone number'',
                                 response = Some \<lparr>response_status = 400, body_message = Some ''Refused''\<rparr>\<rparr>)"
           and formData = johnDoe and st = initialState
           and a = "\<lparr>axios_message = ''Invalid phone number'', response = Some \<lparr>response_status = 400, body_message = Some ''Refused''\<rparr>\<rparr>"
           and e = "responseInterceptor
                      \<lparr>axios_message = ''Invalid phone number'', response = Some \<lparr>response_status = 400, body_message = Some ''Refused''\<rparr>\<rparr>"]
    by simp
qed

section \<open>Properties of the submit handler\<close>

lemma submitForm_requests:
  "requests (snd (submitForm t d st)) = requests st @ [POST_profile_details d]"
  by (cases "post_profile_details t d")
     (simp_all add: submitForm_def api_submitProfileDetails_def client_post_def Let_def)

lemma submitForm_success_iff:
  "success (fst (submitForm t d st)) \<longleftrightarrow> post_profile_details t d = Fulfilled ()"
  by (cases "post_profile_details t d")
     (simp_all add: submitForm_def api_submitProfileDetails_def client_post_def Let_def)

lemma onSubmit_rest_requests_send:
  assumes "held = None \<or> (\<exists>r. held = Some r \<and> valid r)"
  shows "requests (onSubmit_rest t d held st) = requests st @ [POST_profile_details d]"
proof -
  have "requests (case submitForm t d st of
                    (result, st') \<Rightarrow> if \<not> success result then st'\<lparr>formErrors := m result\<rparr> else st') =
        requests st @ [POST_profile_details d]" for m
    using submitForm_requests [of t d st]
    by (cases "submitForm t d st") auto
  then show ?thesis
    using assms by (auto simp: onSubmit_rest_def Let_def)
qed

lemma onSubmit_rest_blocked:
  assumes "held = Some r" and "\<not> valid r"
  shows "onSubmit_rest t d held st = st\<lparr>formErrors := [''corporationNumber'' \<mapsto> messageOrInvalid r]\<rparr>"
  using assms by (simp add: onSubmit_rest_def Let_def)

lemma onSubmit_rest_requests:
  "requests (onSubmit_rest t d held st) = requests st \<or>
   requests (onSubmit_rest t d held st) = requests st @ [POST_profile_details d]"
proof (cases "held = None \<or> (\<exists>r. held = Some r \<and> valid r)")
  case True
  then show ?thesis by (simp add: onSubmit_rest_requests_send)
next
  case False
  then obtain r where "held = Some r" "\<not> valid r" by (cases held) auto
  then show ?thesis by (simp add: onSubmit_rest_blocked)
qed

text \<open>Every form that the schema accepts has a corporation number of 9 characters, which
  the schema passes on as it is; \<open>onSubmit\<close>, which the form calls through \<open>handleSubmit\<close>
  only, always gets such a number. A form that the schema refuses changes nothing.\<close>

lemma runChecks_corporationNumber_ok:
  "snd (runChecks corporationNumberSchema c []) = [] \<Longrightarrow>
   length c = 9 \<and> fst (runChecks corporationNumberSchema c []) = c"
  by (simp add: corporationNumberSchema_def split: if_splits)

lemma schema_corporationNumber_same:
  assumes "onboardingFormSchema values = Inr data"
  shows "corporationNumber data = corporationNumber values"
proof -
  obtain c ci where c: "runChecks corporationNumberSchema (corporationNumber values) [] = (c, ci)"
    by (cases "runChecks corporationNumberSchema (corporationNumber values) []")
  from assms c have "ci = []" and "corporationNumber data = c"
    by (auto simp: onboardingFormSchema_def split: prod.splits if_splits)
  with c runChecks_corporationNumber_ok [of "corporationNumber values"]
  show ?thesis by simp
qed

lemma schema_corporationNumber_nine:
  assumes "onboardingFormSchema values = Inr data"
  shows "length (corporationNumber data) = 9"
proof -
  obtain c ci where c: "runChecks corporationNumberSchema (corporationNumber values) [] = (c, ci)"
    by (cases "runChecks corporationNumberSchema (corporationNumber values) []")
  from assms c have "ci = []" and "corporationNumber data = c"
    by (auto simp: onboardingFormSchema_def split: prod.splits if_splits)
  with c runChecks_corporationNumber_ok [of "corporationNumber values"]
  show ?thesis by simp
qed

lemma handleSubmit_accepted:
  "onboardingFormSchema values = Inr data \<Longrightarrow> handleSubmit t values st = onSubmit t data st"
  by (simp add: handleSubmit_def)

lemma handleSubmit_refused:
  "onboardingFormSchema values = Inl issues \<Longrightarrow> handleSubmit t values st = st"
  by (simp add: handleSubmit_def)

lemma johnDoe_phone: "phone johnDoe = ''+13062776103''"
  by (simp add: johnDoe_def handlePhoneChange_def cleanPhoneInput_def keepDigitsAndPlus_def
      dropLeadingPlus_def startsWith_def isDigit_def Let_def)

lemma johnDoe_accepted: "onboardingFormSchema johnDoe = Inr johnDoe"
proof -
  have t: "trim ''John'' = ''John''" "trim ''Doe'' = ''Doe''"
          "trim ''+13062776103'' = ''+13062776103''"
    by (simp_all add: trim_def isWhiteSpace_def)
  have p: "canadianPhoneRegex ''+13062776103''"
    by (simp add: canadianPhoneRegex_def isDigit2to9_def isDigit_def)
  have c: "nineDigitsRegex ''123456789''"
    by (simp add: nineDigitsRegex_def isDigit_def)
  have e: "johnDoe = \<lparr>firstName = ''John'', lastName = ''Doe'', phone = ''+13062776103'',
                      corporationNumber = ''123456789''\<rparr>"
    using johnDoe_phone by (simp add: johnDoe_def)
  have "onboardingFormSchema
          \<lparr>firstName = ''John'', lastName = ''Doe'', phone = ''+13062776103'',
           corporationNumber = ''123456789''\<rparr> =
        Inr \<lparr>firstName = ''John'', lastName = ''Doe'', phone = ''+13062776103'',
             corporationNumber = ''123456789''\<rparr>"
    by (simp add: onboardingFormSchema_def firstNameSchema_def lastNameSchema_def
        phoneSchema_def corporationNumberSchema_def t p c)
  then show ?thesis by (simp only: e)
qed

text \<open>The requests of \<open>onSubmit\<close> on a number of 9 characters, with no record held or a
  record for another number, where \<open>v\<close> is the verdict of the fresh verification.\<close>

lemma onSubmit_nine_fresh_verification:
  assumes "length (corporationNumber data) = 9"
    and "validationResult st = None \<or>
         (\<exists>r. validationResult st = Some r \<and> cv_corporationNumber r \<noteq> corporationNumber data)"
    and "fst (validateCorporationNumber t (corporationNumber data) st) = Some v"
  shows "(requests (onSubmit t data st) =
            requests st @ [GET_corporation_number (corporationNumber data)] \<or>
          requests (onSubmit t data st) =
            requests st @ [GET_corporation_number (corporationNumber data),
                           POST_profile_details data]) \<and>
         (\<not> valid v \<longrightarrow>
            requests (onSubmit t data st) =
              requests st @ [GET_corporation_number (corporationNumber data)] \<and>
            formErrors (onSubmit t data st) = [''corporationNumber'' \<mapsto> messageOrInvalid v])"
proof -
  let ?cn = "corporationNumber data"
  let ?st1 = "resetSubmission (st\<lparr>formErrors := Map.empty\<rparr>)"
  let ?st2 = "?st1\<lparr>validationResult := Some (remoteVerdict t ?cn),
                  requests := requests ?st1 @ [GET_corporation_number ?cn],
                  isValidating := False\<rparr>"
  from assms(1) have ne: "?cn \<noteq> []" by auto
  from assms(1,3) have v: "v = remoteVerdict t ?cn"
    by (simp add: validateCorporationNumber_nine)
  have call: "validateCorporationNumber t ?cn ?st1 = (Some v, ?st2)"
    using assms(1) by (simp add: validateCorporationNumber_nine v)
  have stale: "(case validationResult st of
                  None \<Rightarrow> True
                | Some r \<Rightarrow> cv_corporationNumber r \<noteq> ?cn)"
    using assms(2) by auto
  have r2: "requests ?st2 = requests st @ [GET_corporation_number ?cn]"
    by (simp add: resetSubmission_def)
  show ?thesis
  proof (cases "valid v")
    case False
    have "onSubmit t data st = ?st2\<lparr>formErrors := [''corporationNumber'' \<mapsto> messageOrInvalid v]\<rparr>"
      using ne stale call False by (simp add: onSubmit_def Let_def)
    then show ?thesis using False r2 by simp
  next
    case True
    have "onSubmit t data st = onSubmit_rest t data (validationResult st) ?st2"
      using ne stale call True by (simp add: onSubmit_def Let_def)
    then show ?thesis
      using True r2 onSubmit_rest_requests [of t data "validationResult st" ?st2] by auto
  qed
qed

text \<open>
  C1. The form invokes \<open>onSubmit\<close> exactly when the schema accepts its values, with the
  parsed data. Whenever it does so with a non-empty corporation number while no record is
  held, or the held record is for another number, the fresh verification returns a
  verdict \<open>v\<close>, and one request to the verifier is sent before any request to the
  submission endpoint: the requests made are that one, or that one followed by one
  submission of the data. If \<open>v\<close> is invalid, only the verification is sent, and the error
  recorded for the field \<open>corporationNumber\<close> is the verdict's message (as line 57 takes
  it: \<open>Invalid corporation number\<close> when the verdict has none or an empty one).
\<close>

theorem submit_fresh_verification_first:
  assumes "onboardingFormSchema values = Inr data"
    and "corporationNumber values \<noteq> []"
    and "validationResult st = None \<or>
         (\<exists>r. validationResult st = Some r \<and>
              cv_corporationNumber r \<noteq> corporationNumber values)"
  shows "handleSubmit t values st = onSubmit t data st \<and>
         (\<exists>v. fst (validateCorporationNumber t (corporationNumber values) st) = Some v \<and>
              (requests (onSubmit t data st) =
                 requests st @ [GET_corporation_number (corporationNumber values)] \<or>
               requests (onSubmit t data st) =
                 requests st @ [GET_corporation_number (corporationNumber values),
                                POST_profile_details data]) \<and>
              (\<not> valid v \<longrightarrow>
                 requests (onSubmit t data st) =
                   requests st @ [GET_corporation_number (corporationNumber values)] \<and>
                 formErrors (onSubmit t data st) =
                   [''corporationNumber'' \<mapsto> messageOrInvalid v]))"
proof -
  let ?cn = "corporationNumber values"
  have same: "corporationNumber data = ?cn"
    by (rule schema_corporationNumber_same [OF assms(1)])
  have nine: "length (corporationNumber data) = 9"
    by (rule schema_corporationNumber_nine [OF assms(1)])
  have stale: "validationResult st = None \<or>
               (\<exists>r. validationResult st = Some r \<and>
                    cv_corporationNumber r \<noteq> corporationNumber data)"
    using assms(3) by (simp add: same)
  have verdict: "fst (validateCorporationNumber t (corporationNumber data) st) =
                   Some (remoteVerdict t (corporationNumber data))"
    by (simp add: validateCorporationNumber_nine [OF nine])
  note step = onSubmit_nine_fresh_verification [OF nine stale verdict]
  have "fst (validateCorporationNumber t ?cn st) = Some (remoteVerdict t ?cn) \<and>
        (requests (onSubmit t data st) = requests st @ [GET_corporation_number ?cn] \<or>
         requests (onSubmit t data st) =
           requests st @ [GET_corporation_number ?cn, POST_profile_details data]) \<and>
        (\<not> valid (remoteVerdict t ?cn) \<longrightarrow>
           requests (onSubmit t data st) = requests st @ [GET_corporation_number ?cn] \<and>
           formErrors (onSubmit t data st) =
             [''corporationNumber'' \<mapsto> messageOrInvalid (remoteVerdict t ?cn)])"
    using verdict step by (simp add: same)
  then have "\<exists>v. fst (validateCorporationNumber t ?cn st) = Some v \<and>
        (requests (onSubmit t data st) = requests st @ [GET_corporation_number ?cn] \<or>
         requests (onSubmit t data st) =
           requests st @ [GET_corporation_number ?cn, POST_profile_details data]) \<and>
        (\<not> valid v \<longrightarrow>
           requests (onSubmit t data st) = requests st @ [GET_corporation_number ?cn] \<and>
           formErrors (onSubmit t data st) = [''corporationNumber'' \<mapsto> messageOrInvalid v])"
    by (rule exI)
  then show ?thesis
    using handleSubmit_accepted [OF assms(1), of t st] by simp
qed

theorem submit_fresh_verification_first_witness:
  "onboardingFormSchema johnDoe = Inr johnDoe \<and>
   corporationNumber johnDoe \<noteq> [] \<and>
   validationResult initialState = None \<and>
   fst (validateCorporationNumber
          (constTransport
             (Fulfilled \<lparr>cv_corporationNumber = ''123456789'', valid = False,
                         message = Some ''Not a registered corporation''\<rparr>)
             (Fulfilled ()))
          (corporationNumber johnDoe) initialState) =
     Some \<lparr>cv_corporationNumber = ''123456789'', valid = False,
           message = Some ''Not a registered corporation''\<rparr> \<and>
   requests
     (handleSubmit
        (constTransport
           (Fulfilled \<lparr>cv_corporationNumber = ''123456789'', valid = False,
                       message = Some ''Not a registered corporation''\<rparr>)
           (Fulfilled ()))
        johnDoe initialState) = [GET_corporation_number ''123456789''] \<and>
   formErrors
     (handleSubmit
        (constTransport
           (Fulfilled \<lparr>cv_corporationNumber = ''123456789'', valid = False,
                       message = Some ''Not a registered corporation''\<rparr>)
           (Fulfilled ()))
        johnDoe initialState) = [''corporationNumber'' \<mapsto> ''Not a registered corporation'']"
proof -
  let ?v = "\<lparr>cv_corporationNumber = ''123456789'', valid = False,
             message = Some ''Not a registered corporation''\<rparr>"
  let ?t = "constTransport (Fulfilled ?v) (Fulfilled ())"
  have h1: "onboardingFormSchema johnDoe = Inr johnDoe" by (rule johnDoe_accepted)
  have cn: "corporationNumber johnDoe = ''123456789''" by (simp add: johnDoe_def)
  have h2: "corporationNumber johnDoe \<noteq> []" by (simp add: cn)
  have h3: "validationResult initialState = None \<or>
            (\<exists>r. validationResult initialState = Some r \<and>
                 cv_corporationNumber r \<noteq> corporationNumber johnDoe)"
    by (simp add: initialState_def)
  have nine: "length (corporationNumber johnDoe) = 9" by (simp add: cn)
  have fresh: "fst (validateCorporationNumber ?t (corporationNumber johnDoe) initialState) =
                 Some ?v"
    by (simp add: validateCorporationNumber_nine [OF nine] remoteVerdict_def
        constTransport_def)
  from submit_fresh_verification_first [OF h1 h2 h3, of ?t]
  obtain v where
    hs: "handleSubmit ?t johnDoe initialState = onSubmit ?t johnDoe initialState" and
    v: "fst (validateCorporationNumber ?t (corporationNumber johnDoe) initialState) = Some v" and
    blocked: "\<not> valid v \<longrightarrow>
       requests (onSubmit ?t johnDoe initialState) =
         requests initialState @ [GET_corporation_number (corporationNumber johnDoe)] \<and>
       formErrors (onSubmit ?t johnDoe initialState) =
         [''corporationNumber'' \<mapsto> messageOrInvalid v]"
    by blast
  from v fresh have "v = ?v" by simp
  with blocked have
    "requests (onSubmit ?t johnDoe initialState) =
       requests initialState @ [GET_corporation_number (corporationNumber johnDoe)] \<and>
     formErrors (onSubmit ?t johnDoe initialState) =
       [''corporationNumber'' \<mapsto> messageOrInvalid ?v]"
    by simp
  then show ?thesis
    using h1 h2 fresh hs
    by (simp add: initialState_def cn messageOrInvalid_def)
qed

text \<open>
  C2. With a held record that is invalid and belongs to another number, a submit whose
  fresh verification returns a valid verdict still does not reach the submission
  endpoint: \<open>onSubmit\<close> goes on to test the record it closed over, finds it invalid, and
  records that record's message as the error of the field. The only request made is the
  verification, and \<open>isSuccess\<close> stays false.
\<close>

theorem onSubmit_blocked_by_stale_record:
  "fst (validateCorporationNumber (constTransport (Fulfilled verdictValid) (Fulfilled ()))
          (corporationNumber johnDoe)
          (initialState
             \<lparr>validationResult :=
                Some \<lparr>cv_corporationNumber = ''111111111'', valid = False,
                      message = Some ''Not found''\<rparr>\<rparr>)) = Some verdictValid \<and>
   valid verdictValid \<and>
   requests
     (onSubmit (constTransport (Fulfilled verdictValid) (Fulfilled ())) johnDoe
        (initialState
           \<lparr>validationResult :=
              Some \<lparr>cv_corporationNumber = ''111111111'', valid = False,
                    message = Some ''Not found''\<rparr>\<rparr>)) =
     [GET_corporation_number ''123456789''] \<and>
   formErrors
     (onSubmit (constTransport (Fulfilled verdictValid) (Fulfilled ())) johnDoe
        (initialState
           \<lparr>validationResult :=
              Some \<lparr>cv_corporationNumber = ''111111111'', valid = False,
                    message = Some ''Not found''\<rparr>\<rparr>)) ''corporationNumber'' = Some ''Not found'' \<and>
   \<not> isSuccess
     (onSubmit (constTransport (Fulfilled verdictValid) (Fulfilled ())) johnDoe
        (initialState
           \<lparr>validationResult :=
              Some \<lparr>cv_corporationNumber = ''111111111'', valid = False,
                    message = Some ''Not found''\<rparr>\<rparr>))"
proof -
  let ?t = "constTransport (Fulfilled verdictValid) (Fulfilled ())"
  have nine: "length (corporationNumber johnDoe) = 9" by (simp add: johnDoe_def)
  have rv: "remoteVerdict ?t (corporationNumber johnDoe) = verdictValid"
    by (simp add: remoteVerdict_def constTransport_def)
  have cn: "corporationNumber johnDoe = ''123456789''" by (simp add: johnDoe_def)
  show ?thesis
    by (simp add: onSubmit_def Let_def validateCorporationNumber_nine [OF nine] rv
        onSubmit_rest_def messageOrInvalid_def resetSubmission_def initialState_def)
       (simp add: cn verdictValid_def)
qed

text \<open>The cases in which \<open>onSubmit\<close> does reach the submission endpoint, with the full form
  data: the held record is for the submitted number and valid; or the number has 9
  characters, the fresh verdict is valid, and no record, or a valid one for another
  number, was held.\<close>

lemma onSubmit_sends_on_matching_valid_record:
  assumes "validationResult st = Some r"
    and "cv_corporationNumber r = corporationNumber data" and "valid r"
  shows "requests (onSubmit t data st) = requests st @ [POST_profile_details data]"
proof -
  have "onSubmit t data st =
          onSubmit_rest t data (Some r) (resetSubmission (st\<lparr>formErrors := Map.empty\<rparr>))"
    using assms by (simp add: onSubmit_def Let_def)
  then show ?thesis
    using assms(3) by (simp add: onSubmit_rest_requests_send resetSubmission_def)
qed

lemma onSubmit_sends_after_valid_fresh_verdict:
  assumes "length (corporationNumber data) = 9"
    and "validationResult st = None \<or>
         (\<exists>r. validationResult st = Some r \<and>
              cv_corporationNumber r \<noteq> corporationNumber data \<and> valid r)"
    and "valid (remoteVerdict t (corporationNumber data))"
  shows "requests (onSubmit t data st) =
           requests st @ [GET_corporation_number (corporationNumber data),
                          POST_profile_details data]"
proof -
  let ?cn = "corporationNumber data"
  from assms(1) have ne: "?cn \<noteq> []" by auto
  have stale: "(case validationResult st of
                  None \<Rightarrow> True
                | Some r \<Rightarrow> cv_corporationNumber r \<noteq> ?cn)"
    using assms(2) by auto
  have held: "validationResult st = None \<or> (\<exists>r. validationResult st = Some r \<and> valid r)"
    using assms(2) by auto
  show ?thesis
    using ne stale assms(3)
    by (simp add: onSubmit_def Let_def validateCorporationNumber_nine [OF assms(1)]
        onSubmit_rest_requests_send [OF held] resetSubmission_def)
qed

text \<open>The end-to-end scenario: John Doe's form passes the schema unchanged, the verifier
  answers \<open>{valid: true}\<close>, the endpoint succeeds. The submit sends the verification, then
  the submission of the full form, and ends with \<open>isSuccess\<close> true and no error.\<close>

lemma end_to_end_success:
  "isSuccess (handleSubmit (constTransport (Fulfilled verdictValid) (Fulfilled ())) johnDoe
                initialState) \<and>
   formErrors (handleSubmit (constTransport (Fulfilled verdictValid) (Fulfilled ())) johnDoe
                 initialState) = Map.empty \<and>
   submitError (handleSubmit (constTransport (Fulfilled verdictValid) (Fulfilled ())) johnDoe
                  initialState) = None \<and>
   requests (handleSubmit (constTransport (Fulfilled verdictValid) (Fulfilled ())) johnDoe
               initialState) =
     [GET_corporation_number ''123456789'', POST_profile_details johnDoe]"
proof -
  let ?t = "constTransport (Fulfilled verdictValid) (Fulfilled ())"
  have nine: "length ''123456789'' = 9" by simp
  have cn: "corporationNumber johnDoe = ''123456789''" by (simp add: johnDoe_def)
  have rv: "remoteVerdict ?t ''123456789'' = verdictValid"
    by (simp add: remoteVerdict_def constTransport_def)
  have ok: "valid verdictValid" by (simp add: verdictValid_def)
  have post: "post_profile_details ?t johnDoe = Fulfilled ()"
    by (simp add: constTransport_def)
  have "handleSubmit ?t johnDoe initialState = onSubmit ?t johnDoe initialState"
    by (simp add: handleSubmit_def johnDoe_accepted)
  moreover have "onSubmit ?t johnDoe initialState =
      initialState\<lparr>validationResult := Some verdictValid, isSuccess := True,
                   requests := [GET_corporation_number ''123456789'',
                                POST_profile_details johnDoe]\<rparr>"
    by (simp add: onSubmit_def Let_def validateCorporationNumber_nine [OF nine] rv ok
        onSubmit_rest_def submitForm_def api_submitProfileDetails_def client_post_def post
        resetSubmission_def initialState_def cn)
  ultimately show ?thesis by (simp add: initialState_def)
qed

text \<open>A form whose first name is three spaces passes the schema and is submitted, with the
  empty string as the first name.\<close>

lemma blank_firstName_accepted:
  "onboardingFormSchema (johnDoe\<lparr>firstName := ''   ''\<rparr>) = Inr (johnDoe\<lparr>firstName := []\<rparr>)"
proof -
  have t: "trim ''Doe'' = ''Doe''" "trim ''+13062776103'' = ''+13062776103''"
    by (simp_all add: trim_def isWhiteSpace_def)
  have p: "canadianPhoneRegex ''+13062776103''"
    by (simp add: canadianPhoneRegex_def isDigit2to9_def isDigit_def)
  have c: "nineDigitsRegex ''123456789''"
    by (simp add: nineDigitsRegex_def isDigit_def)
  have e: "johnDoe = \<lparr>firstName = ''John'', lastName = ''Doe'', phone = ''+13062776103'',
                      corporationNumber = ''123456789''\<rparr>"
    using johnDoe_phone by (simp add: johnDoe_def)
  have "onboardingFormSchema
          \<lparr>firstName = ''   '', lastName = ''Doe'', phone = ''+13062776103'',
           corporationNumber = ''123456789''\<rparr> =
        Inr \<lparr>firstName = [], lastName = ''Doe'', phone = ''+13062776103'',
             corporationNumber = ''123456789''\<rparr>"
    by (simp add: onboardingFormSchema_def firstNameSchema_def lastNameSchema_def
        phoneSchema_def corporationNumberSchema_def t p c trim_spaces)
  then show ?thesis by (simp add: e)
qed

lemma blank_firstName_submitted:
  "requests
     (handleSubmit (constTransport (Fulfilled verdictValid) (Fulfilled ()))
        (johnDoe\<lparr>firstName := ''   ''\<rparr>) initialState) =
     [GET_corporation_number ''123456789'', POST_profile_details (johnDoe\<lparr>firstName := []\<rparr>)] \<and>
   isSuccess
     (handleSubmit (constTransport (Fulfilled verdictValid) (Fulfilled ()))
        (johnDoe\<lparr>firstName := ''   ''\<rparr>) initialState)"
proof -
  let ?t = "constTransport (Fulfilled verdictValid) (Fulfilled ())"
  let ?d = "johnDoe\<lparr>firstName := []\<rparr>"
  have nine: "length ''123456789'' = 9" by simp
  have cn: "corporationNumber ?d = ''123456789''" by (simp add: johnDoe_def)
  have rv: "remoteVerdict ?t ''123456789'' = verdictValid"
    by (simp add: remoteVerdict_def constTransport_def)
  have ok: "valid verdictValid" by (simp add: verdictValid_def)
  have post: "post_profile_details ?t ?d = Fulfilled ()"
    by (simp add: constTransport_def)
  have "handleSubmit ?t (johnDoe\<lparr>firstName := ''   ''\<rparr>) initialState =
        onSubmit ?t ?d initialState"
    by (simp add: handleSubmit_def blank_firstName_accepted)
  moreover have "onSubmit ?t ?d initialState =
      initialState\<lparr>validationResult := Some verdictValid, isSuccess := True,
                   requests := [GET_corporation_number ''123456789'',
                                POST_profile_details ?d]\<rparr>"
    by (simp add: onSubmit_def Let_def validateCorporationNumber_nine [OF nine] rv ok
        onSubmit_rest_def submitForm_def api_submitProfileDetails_def client_post_def post
        resetSubmission_def initialState_def cn)
  ultimately show ?thesis by (simp add: initialState_def)
qed

section \<open>The repository's test cases of the validation utilities\<close>

lemma cleanPhoneInput_test_cases:
  "cleanPhoneInput ''3062776103'' = ''+13062776103''"
  "cleanPhoneInput ''1-306-277-6103'' = ''+13062776103''"
  "cleanPhoneInput ''+1 306 277 6103'' = ''+13062776103''"
  "cleanPhoneInput ''+13062776103'' = ''+13062776103''"
  "cleanPhoneInput ''13062776103'' = ''+13062776103''"
  by (simp_all add: cleanPhoneInput_def keepDigitsAndPlus_def dropLeadingPlus_def
      startsWith_def isDigit_def Let_def)

lemma validatePhoneFormat_test_cases:
  "canadianPhoneRegex ''+13062776103''"
  "\<not> canadianPhoneRegex ''3062776103''"
  "\<not> canadianPhoneRegex ''+2234567890''"
  "\<not> canadianPhoneRegex ''+1-306-277-6103''"
  "\<not> canadianPhoneRegex ''+1 306 277 6103''"
  "\<not> canadianPhoneRegex ''+1000000000''"
  "\<not> canadianPhoneRegex ''+1100000000''"
  by (simp_all add: canadianPhoneRegex_def isDigit2to9_def isDigit_def)

end
